theory Spec2Isabelle
  imports Main "HOL-Library.Sublist"
begin

section \<open>The webfeed package: data model\<close>

text \<open>
  Go strings and byte slices are both sequences of bytes; the conversions
  \<^verbatim>\<open>[]byte(s)\<close> and \<^verbatim>\<open>string(b)\<close> are the identity on them.
\<close>

type_synonym bytes = string

text \<open>
  A \<^verbatim>\<open>time.Time\<close>: the seconds elapsed since 0001-01-01T00:00:00Z and the zone
  offset in seconds east of UTC. \<^verbatim>\<open>time.Time{}\<close> is the zero instant.
\<close>

datatype time = Instant int int

definition zeroTime :: time where
  "zeroTime = Instant 0 0"

text \<open>
  The two kinds of error that \<^verbatim>\<open>Read\<close> returns: the error of the XML decoder,
  passed on as it is, and \<^verbatim>\<open>ErrBadTime\<close>, a string holding a time that was not
  parsable.
\<close>

datatype error = DecodeError string | ErrBadTime string

fun Error :: "error \<Rightarrow> string" where
  "Error (ErrBadTime e) = ''Unable to parse time: '' @ e"
| "Error (DecodeError m) = m"

record Entry =
  Entry_Title :: string
  Entry_Link :: string
  Entry_Summary :: bytes
  Entry_Content :: bytes
  Entry_When :: time

record Feed =
  Feed_Title :: string
  Feed_Link :: string
  Feed_Updated :: time
  Feed_Entries :: "Entry list"

text \<open>The zero value \<^verbatim>\<open>Feed{}\<close>.\<close>

definition zeroFeed :: Feed where
  "zeroFeed = \<lparr>Feed_Title = [], Feed_Link = [], Feed_Updated = zeroTime, Feed_Entries = []\<rparr>"

subsection \<open>The intermediate representation the XML is unmarshalled into\<close>

record atomLink =
  atomLink_Rel :: string
  atomLink_Href :: string

record atomContent =
  atomContent_Type :: string
  atomContent_Contents :: bytes

record atomEntry =
  atomEntry_Title :: string
  atomEntry_Link :: atomLink
  atomEntry_Id :: string
  atomEntry_Updated :: time
  atomEntry_Author :: "string list"
  atomEntry_Summary :: bytes
  atomEntry_Content :: "atomContent list"

record rssContent =
  rssContent_Data :: bytes

record rssItem =
  rssItem_Title :: string
  rssItem_Link :: string
  rssItem_Description :: bytes
  rssItem_Content :: rssContent
  rssItem_Updated :: string

record rss =
  rss_Title :: string
  rss_Link :: string
  rss_Description :: bytes
  rss_Items :: "rssItem list"
  rss_Updated :: string

record feed =
  feed_Title :: string
  feed_Links :: "atomLink list"
  feed_Updated :: time
  feed_Author :: "string list"
  feed_Id :: string
  feed_Entries :: "atomEntry list"
  feed_Rss :: rss

subsection \<open>The imported packages\<close>

text \<open>
  A panic value: \<^verbatim>\<open>bytes.ErrTooLarge\<close>, or any other value. A call either
  returns or panics.
\<close>

datatype panic = ErrTooLarge | OtherPanic string

datatype 'a outcome = Returned 'a | Panicked panic

text \<open>
  What rendering a node into the buffer does: it writes the bytes, or \<^verbatim>\<open>html.Render\<close>
  returns an error, or the call panics.
\<close>

datatype render_result = Rendered bytes | RenderError string | RenderPanic panic

text \<open>
  The functions of \<^verbatim>\<open>encoding/xml\<close>, \<^verbatim>\<open>time\<close> and \<^verbatim>\<open>go.net/html\<close> that the package
  calls are not part of it; the model takes them as parameters. \<open>'n\<close> is the type of
  parsed HTML nodes.
  \<^item> \<open>xmlDecode\<close> is \<^verbatim>\<open>xml.NewDecoder(r).Decode(&f)\<close> on the bytes the reader gives:
    the error, or the filled \<^verbatim>\<open>feed\<close>;
  \<^item> \<open>timeParse layout value\<close> is \<^verbatim>\<open>time.Parse\<close>, \<open>None\<close> when it returns an error;
  \<^item> \<open>htmlParse\<close> is \<^verbatim>\<open>html.Parse\<close>, \<open>htmlRender\<close> is \<^verbatim>\<open>html.Render\<close> into a fresh
    buffer, \<open>htmlEscapeString\<close> and \<open>htmlUnescapeString\<close> are the functions of these
    names.
\<close>

record 'n libs =
  xmlDecode :: "bytes \<Rightarrow> string + feed"
  timeParse :: "string \<Rightarrow> string \<Rightarrow> time option"
  htmlParse :: "bytes \<Rightarrow> string + 'n"
  htmlRender :: "'n \<Rightarrow> render_result"
  htmlEscapeString :: "string \<Rightarrow> string"
  htmlUnescapeString :: "string \<Rightarrow> string"

text \<open>
  \<^verbatim>\<open>bytes.Index(s, sep)\<close>: the index of the first instance of \<open>sep\<close> in \<open>s\<close>, or
  \<open>-1\<close> if \<open>sep\<close> is not present in \<open>s\<close>.
\<close>

fun bytes_Index :: "bytes \<Rightarrow> bytes \<Rightarrow> int" where
  "bytes_Index [] sep = (if sep = [] then 0 else - 1)"
| "bytes_Index (c # s) sep =
     (if prefix sep (c # s) then 0
      else (let i = bytes_Index s sep in if i < 0 then - 1 else i + 1))"

section \<open>Timestamp resolution\<close>

definition rssTimeFormats :: "string list" where
  "rssTimeFormats =
     [''Mon, 2 Jan 2006 15:04:05 -0700'',
      ''Mon, 2 Jan 2006 15:04:05 MST'',
      ''Mon, 2 Jan 06 15:04:05 -0700'',
      ''02 January 2006'']"

text \<open>The loop of \<^verbatim>\<open>rssTime\<close> over the formats that are left to try.\<close>

fun rssTime_loop :: "'n libs \<Rightarrow> string list \<Rightarrow> string \<Rightarrow> time \<times> error option" where
  "rssTime_loop L [] s = (zeroTime, Some (ErrBadTime s))"
| "rssTime_loop L (f # fs) s =
     (case timeParse L f s of
        Some t \<Rightarrow> (t, None)
      | None \<Rightarrow> rssTime_loop L fs s)"

definition rssTime :: "'n libs \<Rightarrow> string \<Rightarrow> time \<times> error option" where
  "rssTime L s =
     (if s = [] then (zeroTime, None)
      else rssTime_loop L rssTimeFormats s)"

section \<open>Markup repair\<close>

definition openBody :: bytes where
  "openBody = ''<body>''"

definition closeBody :: bytes where
  "closeBody = ''</body>''"

text \<open>
  The statements of \<^verbatim>\<open>fixHtml\<close> that run after the deferred function is installed:
  rendering into the buffer and cutting the body out of what was rendered.
\<close>

definition fixHtml_render :: "'n libs \<Rightarrow> bytes \<Rightarrow> 'n \<Rightarrow> bytes outcome" where
  "fixHtml_render L wild n =
     (case htmlRender L n of
        RenderPanic p \<Rightarrow> Panicked p
      | RenderError err \<Rightarrow> Returned (htmlEscapeString L wild)
      | Rendered buf \<Rightarrow>
          (let i = bytes_Index buf openBody in
           if i < 0 then Returned (htmlEscapeString L wild)
           else
             (let well = drop (nat (i + int (length openBody))) buf;
                  j = bytes_Index well closeBody in
              if j < 0 then Returned (htmlEscapeString L wild)
              else Returned (take (nat j) well))))"

text \<open>
  The deferred function: it runs when the guarded statements return or panic. It
  recovers the panic value; \<^verbatim>\<open>bytes.ErrTooLarge\<close> sets the result to the escaped
  input, any other value is raised again, and a normal return is left as it is.
\<close>

definition fixHtml_recover :: "'n libs \<Rightarrow> bytes \<Rightarrow> bytes outcome \<Rightarrow> bytes outcome" where
  "fixHtml_recover L wild r =
     (case r of
        Returned well \<Rightarrow> Returned well
      | Panicked err \<Rightarrow>
          (if err = ErrTooLarge then Returned (htmlEscapeString L wild)
           else Panicked err))"

definition fixHtml :: "'n libs \<Rightarrow> bytes \<Rightarrow> bytes outcome" where
  "fixHtml L wild =
     (case htmlParse L wild of
        Inl err \<Rightarrow> Returned (htmlEscapeString L wild)
      | Inr n \<Rightarrow> fixHtml_recover L wild (fixHtml_render L wild n))"

section \<open>The two transforms and the entry point\<close>

text \<open>
  The loop of \<^verbatim>\<open>rssFeed\<close> over the items that are left, on the feed built so far and
  the error kept so far. A panic of \<^verbatim>\<open>fixHtml\<close> ends the call.
\<close>

fun rssFeed_loop ::
  "'n libs \<Rightarrow> rssItem list \<Rightarrow> Feed \<Rightarrow> error option \<Rightarrow> (Feed \<times> error option) outcome" where
  "rssFeed_loop L [] f err = Returned (f, err)"
| "rssFeed_loop L (it # its) f err =
     (case rssTime L (rssItem_Updated it) of (when, e) \<Rightarrow>
        (let err' = (if err = None \<and> e \<noteq> None then e else err) in
         (case fixHtml L (rssItem_Description it) of
            Panicked p \<Rightarrow> Panicked p
          | Returned summary \<Rightarrow>
              (case fixHtml L (rssContent_Data (rssItem_Content it)) of
                 Panicked p \<Rightarrow> Panicked p
               | Returned content \<Rightarrow>
                   rssFeed_loop L its
                     (f\<lparr>Feed_Entries := Feed_Entries f @
                        [\<lparr>Entry_Title = rssItem_Title it,
                          Entry_Link = rssItem_Link it,
                          Entry_Summary = summary,
                          Entry_Content = content,
                          Entry_When = when\<rparr>]\<rparr>)
                     err'))))"

definition rssFeed :: "'n libs \<Rightarrow> rss \<Rightarrow> (Feed \<times> error option) outcome" where
  "rssFeed L r =
     (case rssTime L (rss_Updated r) of (updated, err) \<Rightarrow>
        rssFeed_loop L (rss_Items r)
          \<lparr>Feed_Title = rss_Title r, Feed_Link = rss_Link r,
           Feed_Updated = updated, Feed_Entries = []\<rparr>
          err)"

text \<open>\<^verbatim>\<open>func (f *feed) link() string\<close>, as the loop over the links that are left.\<close>

fun link_loop :: "atomLink list \<Rightarrow> string" where
  "link_loop [] = []"
| "link_loop (l # ls) =
     (if atomLink_Rel l = [] \<or> atomLink_Rel l = ''alternate'' then atomLink_Href l
      else link_loop ls)"

definition feed_link :: "feed \<Rightarrow> string" where
  "feed_link f = link_loop (feed_Links f)"

text \<open>\<^verbatim>\<open>func (c atomContent) Data() []byte\<close>\<close>

definition atomContent_Data :: "'n libs \<Rightarrow> atomContent \<Rightarrow> bytes" where
  "atomContent_Data L c =
     (if atomContent_Type c \<noteq> ''xhtml'' then htmlUnescapeString L (atomContent_Contents c)
      else atomContent_Contents c)"

text \<open>The body of the loop of \<^verbatim>\<open>atomFeed\<close>: the entry made of one \<^verbatim>\<open>atomEntry\<close>.\<close>

definition atomFeed_entry :: "'n libs \<Rightarrow> atomEntry \<Rightarrow> Entry outcome" where
  "atomFeed_entry L ent =
     (case fixHtml L (atomEntry_Summary ent) of
        Panicked p \<Rightarrow> Panicked p
      | Returned summary \<Rightarrow>
          (let e = \<lparr>Entry_Title = atomEntry_Title ent,
                    Entry_Link = atomLink_Href (atomEntry_Link ent),
                    Entry_Summary = summary,
                    Entry_Content = [],
                    Entry_When = atomEntry_Updated ent\<rparr> in
           if length (atomEntry_Content ent) > 0 then
             (case fixHtml L (atomContent_Data L (atomEntry_Content ent ! 0)) of
                Panicked p \<Rightarrow> Panicked p
              | Returned content \<Rightarrow> Returned (e\<lparr>Entry_Content := content\<rparr>))
           else Returned e))"

fun atomFeed_loop :: "'n libs \<Rightarrow> atomEntry list \<Rightarrow> Feed \<Rightarrow> Feed outcome" where
  "atomFeed_loop L [] f = Returned f"
| "atomFeed_loop L (ent # ents) f =
     (case atomFeed_entry L ent of
        Panicked p \<Rightarrow> Panicked p
      | Returned e \<Rightarrow> atomFeed_loop L ents (f\<lparr>Feed_Entries := Feed_Entries f @ [e]\<rparr>))"

definition atomFeed :: "'n libs \<Rightarrow> feed \<Rightarrow> (Feed \<times> error option) outcome" where
  "atomFeed L a =
     (case atomFeed_loop L (feed_Entries a)
             \<lparr>Feed_Title = feed_Title a, Feed_Link = feed_link a,
              Feed_Updated = feed_Updated a, Feed_Entries = []\<rparr> of
        Panicked p \<Rightarrow> Panicked p
      | Returned f \<Rightarrow> Returned (f, None))"

text \<open>\<^verbatim>\<open>func Read(r io.Reader) (Feed, error)\<close>, on the bytes that the reader gives.\<close>

definition Read :: "'n libs \<Rightarrow> bytes \<Rightarrow> (Feed \<times> error option) outcome" where
  "Read L r =
     (case xmlDecode L r of
        Inl err \<Rightarrow> Returned (zeroFeed, Some (DecodeError err))
      | Inr f \<Rightarrow>
          (if rss_Title (feed_Rss f) \<noteq> [] then rssFeed L (feed_Rss f)
           else atomFeed L f))"

section \<open>Notions used to state the properties\<close>

text \<open>
  The reference definition of timestamp resolution, in the words of the specification:
  an empty string is the zero instant with no error; otherwise the four patterns are
  tried in their order and the instant of the first one that matches is returned; if
  none matches, the zero instant comes with \<open>ErrBadTime\<close> carrying the string.
\<close>

definition rssTime_ref :: "'n libs \<Rightarrow> string \<Rightarrow> time \<times> error option" where
  "rssTime_ref L s =
     (if s = [] then (zeroTime, None)
      else
        (case List.map_filter (\<lambda>pattern. timeParse L pattern s)
                [''Mon, 2 Jan 2006 15:04:05 -0700'',
                 ''Mon, 2 Jan 2006 15:04:05 MST'',
                 ''Mon, 2 Jan 06 15:04:05 -0700'',
                 ''02 January 2006''] of
           [] \<Rightarrow> (zeroTime, Some (ErrBadTime s))
         | t # _ \<Rightarrow> (t, None)))"

text \<open>A timestamp fails to parse: it is not empty and no format of the list parses it.\<close>

definition badTime :: "'n libs \<Rightarrow> string \<Rightarrow> bool" where
  "badTime L s = (s \<noteq> [] \<and> list_all (\<lambda>f. timeParse L f s = None) rssTimeFormats)"

text \<open>
  The timestamps of an RSS document in traversal order: the one of the channel, then
  the ones of the items in document order.
\<close>

definition rssTimestamps :: "rss \<Rightarrow> string list" where
  "rssTimestamps r = rss_Updated r # map rssItem_Updated (rss_Items r)"

definition firstBadTime :: "'n libs \<Rightarrow> string list \<Rightarrow> string option" where
  "firstBadTime L ss = List.find (badTime L) ss"

text \<open>
  An entry is populated from an RSS item: title and link are the item's, summary and
  content are what markup repair returns for the item's description and encoded
  content, and the time is what timestamp resolution gives for the item's date.
\<close>

definition rssEntry_populated :: "'n libs \<Rightarrow> rssItem \<Rightarrow> Entry \<Rightarrow> bool" where
  "rssEntry_populated L it e =
     (Entry_Title e = rssItem_Title it \<and>
      Entry_Link e = rssItem_Link it \<and>
      fixHtml L (rssItem_Description it) = Returned (Entry_Summary e) \<and>
      fixHtml L (rssContent_Data (rssItem_Content it)) = Returned (Entry_Content e) \<and>
      Entry_When e = fst (rssTime L (rssItem_Updated it)))"

definition rssFeed_populated :: "'n libs \<Rightarrow> rss \<Rightarrow> Feed \<Rightarrow> bool" where
  "rssFeed_populated L r F =
     (Feed_Title F = rss_Title r \<and>
      Feed_Link F = rss_Link r \<and>
      Feed_Updated F = fst (rssTime L (rss_Updated r)) \<and>
      list_all2 (rssEntry_populated L) (rss_Items r) (Feed_Entries F))"

text \<open>An entry is populated from an Atom entry.\<close>

definition atomEntry_populated :: "'n libs \<Rightarrow> atomEntry \<Rightarrow> Entry \<Rightarrow> bool" where
  "atomEntry_populated L ent e =
     (Entry_Title e = atomEntry_Title ent \<and>
      Entry_Link e = atomLink_Href (atomEntry_Link ent) \<and>
      fixHtml L (atomEntry_Summary ent) = Returned (Entry_Summary e) \<and>
      Entry_When e = atomEntry_Updated ent)"

text \<open>
  The renderer raises no panic but \<^verbatim>\<open>bytes.ErrTooLarge\<close>: the imported HTML package
  has no defect that reaches the caller.
\<close>

definition renderGuarded :: "'n libs \<Rightarrow> bool" where
  "renderGuarded L = (\<forall>n p. htmlRender L n = RenderPanic p \<longrightarrow> p = ErrTooLarge)"

text \<open>
  \<open>sep\<close> stands in \<open>s\<close> at index \<open>i\<close>, and at no smaller index: \<open>i\<close> is where the first
  instance of \<open>sep\<close> starts.
\<close>

definition first_at :: "bytes \<Rightarrow> bytes \<Rightarrow> nat \<Rightarrow> bool" where
  "first_at sep s i =
     (i \<le> length s \<and> prefix sep (drop i s) \<and>
      list_all (\<lambda>j. \<not> prefix sep (drop j s)) [0..<i])"

text \<open>
  The canonical link of a sequence of Atom links, in the words of the specification:
  the href of the first link whose relation is unset or \<open>alternate\<close>.
\<close>

definition canonicalLink :: "atomLink list \<Rightarrow> string" where
  "canonicalLink ls =
     (case List.find (\<lambda>l. atomLink_Rel l = [] \<or> atomLink_Rel l = ''alternate'') ls of
        None \<Rightarrow> []
      | Some l \<Rightarrow> atomLink_Href l)"

text \<open>What the HTML package renders for a document whose body holds \<open>w\<close>.\<close>

definition htmlDocument :: "bytes \<Rightarrow> bytes" where
  "htmlDocument w = ''<html><head></head><body>'' @ w @ ''</body></html>''"

section \<open>A small instance of the imported packages, for the examples\<close>

text \<open>
  \<^verbatim>\<open>time.Parse\<close> on two values: the reference time in the first layout, which is
  2006-01-02T15:04:05-07:00, and a bare date in the fourth layout, which is
  2006-01-02T00:00:00Z. Every other value is taken as unparsable.
\<close>

definition sample_timeParse :: "string \<Rightarrow> string \<Rightarrow> time option" where
  "sample_timeParse layout v =
     (if layout = ''Mon, 2 Jan 2006 15:04:05 -0700'' \<and> v = ''Mon, 2 Jan 2006 15:04:05 -0700''
      then Some (Instant 63271836245 (- 25200))
      else if layout = ''02 January 2006'' \<and> v = ''02 January 2006''
      then Some (Instant 63271756800 0)
      else None)"

text \<open>\<^verbatim>\<open>html.EscapeString\<close> on the five special characters.\<close>

fun sample_escape :: "string \<Rightarrow> string" where
  "sample_escape [] = []"
| "sample_escape (c # s) =
     (if c = CHR ''&'' then ''&amp;''
      else if c = CHR ''<'' then ''&lt;''
      else if c = CHR ''>'' then ''&gt;''
      else if c = CHR 0x27 then ''&#39;''
      else if c = CHR 0x22 then ''&#34;''
      else [c]) @ sample_escape s"

text \<open>\<^verbatim>\<open>html.UnescapeString\<close> on the entities of the angle brackets.\<close>

fun sample_unescape :: "string \<Rightarrow> string" where
  "sample_unescape [] = []"
| "sample_unescape (c # s) =
     (if prefix ''&lt;'' (c # s) then CHR ''<'' # sample_unescape (drop 3 s)
      else if prefix ''&gt;'' (c # s) then CHR ''>'' # sample_unescape (drop 3 s)
      else c # sample_unescape s)"

text \<open>
  Five documents and the records that the decoder fills for them. An element that is
  absent leaves its field at the zero value; character data is unescaped; a field
  tagged \<^verbatim>\<open>innerxml\<close> holds the raw text. An entry has one \<^verbatim>\<open>atomLink\<close>, which every
  link element of the entry is unmarshalled into: the attributes of a later element
  overwrite the ones of an earlier element.
\<close>

definition sampleItem :: "string \<Rightarrow> string \<Rightarrow> rssItem" where
  "sampleItem title date =
     \<lparr>rssItem_Title = title, rssItem_Link = [],
      rssItem_Description = ''<p>'' @ title @ ''</p>'',
      rssItem_Content = \<lparr>rssContent_Data = []\<rparr>,
      rssItem_Updated = date\<rparr>"

definition sampleRss :: "string \<Rightarrow> string \<Rightarrow> rssItem list \<Rightarrow> rss" where
  "sampleRss title date items =
     \<lparr>rss_Title = title, rss_Link = [], rss_Description = [],
      rss_Items = items, rss_Updated = date\<rparr>"

definition emptyRss :: rss where
  "emptyRss = sampleRss [] [] []"

definition rssDocument :: "rss \<Rightarrow> feed" where
  "rssDocument r =
     \<lparr>feed_Title = [], feed_Links = [], feed_Updated = zeroTime,
      feed_Author = [], feed_Id = [], feed_Entries = [], feed_Rss = r\<rparr>"

definition newsRss_xml :: bytes where
  "newsRss_xml =
     ''<rss><channel><title>News</title><pubDate>Mon, 2 Jan 2006 15:04:05 -0700</pubDate>''
     @ ''<item><title>A</title><description>&lt;p&gt;A&lt;/p&gt;</description>''
     @ ''<pubDate>yesterday</pubDate></item>''
     @ ''<item><title>B</title><description>&lt;p&gt;B&lt;/p&gt;</description>''
     @ ''<pubDate>02 January 2006</pubDate></item>''
     @ ''<item><title>C</title><description>&lt;p&gt;C&lt;/p&gt;</description>''
     @ ''<pubDate>tomorrow</pubDate></item></channel></rss>''"

definition newsRss :: rss where
  "newsRss =
     sampleRss ''News'' ''Mon, 2 Jan 2006 15:04:05 -0700''
       [sampleItem ''A'' ''yesterday'', sampleItem ''B'' ''02 January 2006'',
        sampleItem ''C'' ''tomorrow'']"

definition lateRss_xml :: bytes where
  "lateRss_xml =
     ''<rss><channel><title>Late</title><pubDate>someday</pubDate>''
     @ ''<item><title>B</title><description>&lt;p&gt;B&lt;/p&gt;</description>''
     @ ''<pubDate>02 January 2006</pubDate></item></channel></rss>''"

definition lateRss :: rss where
  "lateRss = sampleRss ''Late'' ''someday'' [sampleItem ''B'' ''02 January 2006'']"

definition datedRss_xml :: bytes where
  "datedRss_xml =
     ''<rss><channel><title>Dated</title>''
     @ ''<item><title>B</title><description>&lt;p&gt;B&lt;/p&gt;</description>''
     @ ''<pubDate>02 January 2006</pubDate></item></channel></rss>''"

definition datedRss :: rss where
  "datedRss = sampleRss ''Dated'' [] [sampleItem ''B'' ''02 January 2006'']"

definition untitledRss_xml :: bytes where
  "untitledRss_xml =
     ''<rss version='2.0'><channel><title></title><link>http://example.org/</link>''
     @ ''<description>News of the day</description>''
     @ ''<item><title>B</title><description>&lt;p&gt;B&lt;/p&gt;</description>''
     @ ''<pubDate>02 January 2006</pubDate></item></channel></rss>''"

definition untitledRss :: rss where
  "untitledRss =
     \<lparr>rss_Title = [], rss_Link = ''http://example.org/'',
      rss_Description = ''News of the day'',
      rss_Items = [sampleItem ''B'' ''02 January 2006''], rss_Updated = []\<rparr>"

definition blog_xml :: bytes where
  "blog_xml =
     ''<feed><title>Blog</title><link rel='self' href='http://b/feed'/><link href='http://b/'/>''
     @ ''<entry><title>P</title><link href='http://b/p'/><link rel='self' href='http://b/p.atom'/>''
     @ ''<content type='html'>&lt;i&gt;x&lt;/i&gt;</content>''
     @ ''<content type='xhtml'><u>y</u></content></entry>''
     @ ''<entry><title>Q</title><link rel='self' href='http://b/q.atom'/>''
     @ ''<content type='xhtml'><u>&lt;</u></content></entry></feed>''"

definition blog :: feed where
  "blog =
     \<lparr>feed_Title = ''Blog'',
      feed_Links = [\<lparr>atomLink_Rel = ''self'', atomLink_Href = ''http://b/feed''\<rparr>,
                    \<lparr>atomLink_Rel = [], atomLink_Href = ''http://b/''\<rparr>],
      feed_Updated = zeroTime, feed_Author = [], feed_Id = [],
      feed_Entries =
        [\<lparr>atomEntry_Title = ''P'',
          atomEntry_Link = \<lparr>atomLink_Rel = ''self'', atomLink_Href = ''http://b/p.atom''\<rparr>,
          atomEntry_Id = [], atomEntry_Updated = zeroTime, atomEntry_Author = [],
          atomEntry_Summary = [],
          atomEntry_Content =
            [\<lparr>atomContent_Type = ''html'', atomContent_Contents = ''&lt;i&gt;x&lt;/i&gt;''\<rparr>,
             \<lparr>atomContent_Type = ''xhtml'', atomContent_Contents = ''<u>y</u>''\<rparr>]\<rparr>,
         \<lparr>atomEntry_Title = ''Q'',
          atomEntry_Link = \<lparr>atomLink_Rel = ''self'', atomLink_Href = ''http://b/q.atom''\<rparr>,
          atomEntry_Id = [], atomEntry_Updated = zeroTime, atomEntry_Author = [],
          atomEntry_Summary = [],
          atomEntry_Content =
            [\<lparr>atomContent_Type = ''xhtml'', atomContent_Contents = ''<u>&lt;</u>''\<rparr>]\<rparr>],
      feed_Rss = emptyRss\<rparr>"

definition sample_xmlDecode :: "bytes \<Rightarrow> string + feed" where
  "sample_xmlDecode r =
     (if r = [] then Inl ''EOF''
      else if r = newsRss_xml then Inr (rssDocument newsRss)
      else if r = lateRss_xml then Inr (rssDocument lateRss)
      else if r = datedRss_xml then Inr (rssDocument datedRss)
      else if r = untitledRss_xml then Inr (rssDocument untitledRss)
      else if r = blog_xml then Inr blog
      else Inl ''XML syntax error'')"

text \<open>
  A parser that keeps the bytes of the body as its node, and a renderer that writes
  the document around them.
\<close>

definition sampleLibs :: "bytes libs" where
  "sampleLibs =
     \<lparr>xmlDecode = sample_xmlDecode,
      timeParse = sample_timeParse,
      htmlParse = (\<lambda>wild. Inr wild),
      htmlRender = (\<lambda>n. Rendered (htmlDocument n)),
      htmlEscapeString = sample_escape,
      htmlUnescapeString = sample_unescape\<rparr>"

text \<open>The feeds that the two transforms make of these records.\<close>

definition sampleEntry :: "string \<Rightarrow> time \<Rightarrow> Entry" where
  "sampleEntry title t =
     \<lparr>Entry_Title = title, Entry_Link = [], Entry_Summary = ''<p>'' @ title @ ''</p>'',
      Entry_Content = [], Entry_When = t\<rparr>"

definition newsFeed :: Feed where
  "newsFeed =
     \<lparr>Feed_Title = ''News'', Feed_Link = [],
      Feed_Updated = Instant 63271836245 (- 25200),
      Feed_Entries =
        [sampleEntry ''A'' zeroTime, sampleEntry ''B'' (Instant 63271756800 0),
         sampleEntry ''C'' zeroTime]\<rparr>"

definition lateFeed :: Feed where
  "lateFeed =
     \<lparr>Feed_Title = ''Late'', Feed_Link = [], Feed_Updated = zeroTime,
      Feed_Entries = [sampleEntry ''B'' (Instant 63271756800 0)]\<rparr>"

definition datedFeed :: Feed where
  "datedFeed =
     \<lparr>Feed_Title = ''Dated'', Feed_Link = [], Feed_Updated = zeroTime,
      Feed_Entries = [sampleEntry ''B'' (Instant 63271756800 0)]\<rparr>"

definition blogFeed :: Feed where
  "blogFeed =
     \<lparr>Feed_Title = ''Blog'', Feed_Link = ''http://b/'', Feed_Updated = zeroTime,
      Feed_Entries =
        [\<lparr>Entry_Title = ''P'', Entry_Link = ''http://b/p.atom'', Entry_Summary = [],
          Entry_Content = ''<i>x</i>'', Entry_When = zeroTime\<rparr>,
         \<lparr>Entry_Title = ''Q'', Entry_Link = ''http://b/q.atom'', Entry_Summary = [],
          Entry_Content = ''<u>&lt;</u>'', Entry_When = zeroTime\<rparr>]\<rparr>"

section \<open>Properties of timestamp resolution\<close>

lemma rssTime_loop_map_filter:
  "rssTime_loop L fs s =
     (case List.map_filter (\<lambda>p. timeParse L p s) fs of
        [] \<Rightarrow> (zeroTime, Some (ErrBadTime s))
      | t # _ \<Rightarrow> (t, None))"
  by (induction fs) (auto split: option.splits)

lemma rssTime_loop_err:
  "snd (rssTime_loop L fs s) =
     (if list_all (\<lambda>f. timeParse L f s = None) fs then Some (ErrBadTime s) else None)"
  by (induction fs) (auto split: option.splits)

lemma rssTime_loop_zero:
  "list_all (\<lambda>f. timeParse L f s = None) fs \<Longrightarrow> fst (rssTime_loop L fs s) = zeroTime"
  by (induction fs) (auto split: option.splits)

lemma rssTime_err: "snd (rssTime L s) = (if badTime L s then Some (ErrBadTime s) else None)"
  by (simp add: rssTime_def badTime_def rssTime_loop_err)

lemma rssTime_bad_zero: "badTime L s \<Longrightarrow> fst (rssTime L s) = zeroTime"
  by (simp add: rssTime_def badTime_def rssTime_loop_zero)

text \<open>
  C4: \<open>rssTime\<close> equals the reference definition for every string: the empty string
  gives the zero instant and no error; otherwise the four patterns are tried in their
  order and the first one that matches gives the instant; when none matches, the result
  is the zero instant with \<open>ErrBadTime\<close> carrying the string. \<^verbatim>\<open>time.Parse\<close> is a
  parameter: where it reads the reference time in the first layout as
  2006-01-02T15:04:05-07:00, so does \<open>rssTime\<close>, and where only the fourth layout reads
  \<^verbatim>\<open>02 January 2006\<close>, \<open>rssTime\<close> returns the instant of the fourth layout.
\<close>

theorem rssTime_refines_reference:
  "rssTime L s = rssTime_ref L s
   \<and> (timeParse L ''Mon, 2 Jan 2006 15:04:05 -0700'' ''Mon, 2 Jan 2006 15:04:05 -0700''
        = Some (Instant 63271836245 (- 25200))
      \<longrightarrow> rssTime L ''Mon, 2 Jan 2006 15:04:05 -0700''
            = (Instant 63271836245 (- 25200), None))
   \<and> (timeParse L ''Mon, 2 Jan 2006 15:04:05 -0700'' ''02 January 2006'' = None
      \<and> timeParse L ''Mon, 2 Jan 2006 15:04:05 MST'' ''02 January 2006'' = None
      \<and> timeParse L ''Mon, 2 Jan 06 15:04:05 -0700'' ''02 January 2006'' = None
      \<and> timeParse L ''02 January 2006'' ''02 January 2006'' = Some t
      \<longrightarrow> rssTime L ''02 January 2006'' = (t, None))"
  by (simp add: rssTime_def rssTime_ref_def rssTimeFormats_def rssTime_loop_map_filter)

theorem rssTime_refines_reference_witness:
  "timeParse sampleLibs ''Mon, 2 Jan 2006 15:04:05 -0700'' ''Mon, 2 Jan 2006 15:04:05 -0700''
     = Some (Instant 63271836245 (- 25200))
   \<and> rssTime sampleLibs ''Mon, 2 Jan 2006 15:04:05 -0700''
       = (Instant 63271836245 (- 25200), None)
   \<and> timeParse sampleLibs ''Mon, 2 Jan 2006 15:04:05 -0700'' ''02 January 2006'' = None
   \<and> timeParse sampleLibs ''Mon, 2 Jan 2006 15:04:05 MST'' ''02 January 2006'' = None
   \<and> timeParse sampleLibs ''Mon, 2 Jan 06 15:04:05 -0700'' ''02 January 2006'' = None
   \<and> timeParse sampleLibs ''02 January 2006'' ''02 January 2006''
       = Some (Instant 63271756800 0)
   \<and> rssTime sampleLibs ''02 January 2006'' = (Instant 63271756800 0, None)
   \<and> rssTime sampleLibs ''yesterday'' = rssTime_ref sampleLibs ''yesterday''
   \<and> rssTime_ref sampleLibs ''yesterday'' = (zeroTime, Some (ErrBadTime ''yesterday''))
   \<and> rssTime_ref sampleLibs [] = (zeroTime, None)"
  using rssTime_refines_reference [of sampleLibs "''yesterday''" "Instant 63271756800 0"]
  by (simp add: sampleLibs_def sample_timeParse_def rssTime_ref_def)

section \<open>Properties of markup repair\<close>

lemma bytes_Index_ge: "- 1 \<le> bytes_Index s sep"
  by (induction s) (auto simp: Let_def)

lemma first_at_iff:
  "first_at sep s i \<longleftrightarrow>
     i \<le> length s \<and> prefix sep (drop i s) \<and> (\<forall>j<i. \<not> prefix sep (drop j s))"
  by (auto simp: first_at_def list_all_iff)

lemma first_at_0: "first_at sep s 0 \<longleftrightarrow> prefix sep s"
  by (simp add: first_at_iff)

lemma first_at_Suc:
  "first_at sep (c # s) (Suc k) \<longleftrightarrow> \<not> prefix sep (c # s) \<and> first_at sep s k"
  by (auto simp: first_at_iff All_less_Suc2)

lemma bytes_Index_first:
  "first_at sep s i \<Longrightarrow> bytes_Index s sep = int i"
proof (induction s arbitrary: i)
  case Nil
  then show ?case by (simp add: first_at_iff)
next
  case (Cons c s)
  show ?case
  proof (cases i)
    case 0
    with Cons.prems show ?thesis by (simp add: first_at_0)
  next
    case (Suc k)
    with Cons.prems have np: "\<not> prefix sep (c # s)" and "first_at sep s k"
      by (simp_all add: first_at_Suc)
    then have "bytes_Index s sep = int k" using Cons.IH by simp
    with np Suc show ?thesis by simp
  qed
qed

lemma bytes_Index_absent:
  "\<not> sublist sep s \<Longrightarrow> bytes_Index s sep = - 1"
proof (induction s)
  case Nil
  then show ?case by auto
next
  case (Cons c s)
  then have "\<not> prefix sep (c # s)" and "\<not> sublist sep s"
    by (auto simp: sublist_Cons_right)
  with Cons.IH show ?case by simp
qed

lemma bytes_Index_found:
  "0 \<le> bytes_Index s sep \<Longrightarrow> first_at sep s (nat (bytes_Index s sep))"
proof (induction s)
  case Nil
  then show ?case by (simp add: first_at_iff split: if_splits)
next
  case (Cons c s)
  show ?case
  proof (cases "prefix sep (c # s)")
    case True
    then show ?thesis by (simp add: first_at_0)
  next
    case False
    with Cons.prems have nn: "0 \<le> bytes_Index s sep"
      by (simp add: Let_def split: if_splits)
    then have fa: "first_at sep s (nat (bytes_Index s sep))" by (rule Cons.IH)
    from False nn have eq: "nat (bytes_Index (c # s) sep) = Suc (nat (bytes_Index s sep))"
      by (simp add: Let_def nat_add_distrib)
    from False fa show ?thesis unfolding eq by (simp add: first_at_Suc)
  qed
qed

lemma bytes_Index_present:
  "sublist sep s \<Longrightarrow> 0 \<le> bytes_Index s sep"
proof (induction s)
  case Nil
  then show ?case by auto
next
  case (Cons c s)
  then show ?case
    using bytes_Index_ge [of s sep] by (auto simp: sublist_Cons_right Let_def)
qed

lemma first_at_split:
  "first_at sep s i \<Longrightarrow> s = take i s @ sep @ drop (i + length sep) s"
proof -
  assume "first_at sep s i"
  then have "prefix sep (drop i s)" by (simp add: first_at_iff)
  then obtain r where r: "drop i s = sep @ r" by (auto simp: prefix_def)
  then have "drop (length sep) (drop i s) = r" by simp
  then have "r = drop (i + length sep) s" by (simp add: add.commute)
  with r have "drop i s = sep @ drop (i + length sep) s" by simp
  then have "take i s @ drop i s = take i s @ sep @ drop (i + length sep) s" by simp
  then show ?thesis by simp
qed

lemma sublist_first_at: "sublist sep s \<Longrightarrow> \<exists>i. first_at sep s i"
  using bytes_Index_present bytes_Index_found by blast

lemma fixHtml_parse_error:
  "htmlParse L wild = Inl e \<Longrightarrow> fixHtml L wild = Returned (htmlEscapeString L wild)"
  by (simp add: fixHtml_def)

lemma fixHtml_rendered:
  "htmlParse L wild = Inr n \<Longrightarrow> htmlRender L n = Rendered buf \<Longrightarrow>
   fixHtml L wild =
     (if bytes_Index buf openBody < 0 then Returned (htmlEscapeString L wild)
      else if bytes_Index (drop (nat (bytes_Index buf openBody + 6)) buf) closeBody < 0
      then Returned (htmlEscapeString L wild)
      else Returned (take (nat (bytes_Index (drop (nat (bytes_Index buf openBody + 6)) buf) closeBody))
                      (drop (nat (bytes_Index buf openBody + 6)) buf)))"
  by (simp add: fixHtml_def fixHtml_render_def fixHtml_recover_def Let_def openBody_def)

lemma fixHtml_not_rendered:
  "htmlParse L wild = Inr n \<Longrightarrow> htmlRender L n = RenderError e \<Longrightarrow>
     fixHtml L wild = Returned (htmlEscapeString L wild)"
  "htmlParse L wild = Inr n \<Longrightarrow> htmlRender L n = RenderPanic p \<Longrightarrow>
     fixHtml L wild = (if p = ErrTooLarge then Returned (htmlEscapeString L wild) else Panicked p)"
  by (simp_all add: fixHtml_def fixHtml_render_def fixHtml_recover_def)

lemma fixHtml_returns: "renderGuarded L \<Longrightarrow> \<exists>well. fixHtml L wild = Returned well"
  unfolding renderGuarded_def fixHtml_def fixHtml_render_def fixHtml_recover_def Let_def
  by (auto split: sum.splits render_result.splits)

text \<open>
  C5: markup repair returns no error. When parsing, rendering and the search for both
  markers succeed, the result is exactly the rendered bytes between the first
  \<^verbatim>\<open><body>\<close> and the first \<^verbatim>\<open></body>\<close> after it, the markers excluded. When
  parsing fails, rendering fails, a marker is absent, or rendering panics with
  \<^verbatim>\<open>bytes.ErrTooLarge\<close>, the result is the escaped input. Any other panic raised
  while rendering is raised again; without one, the call returns.
\<close>

theorem fixHtml_cases:
  "(htmlParse L wild = Inl e \<longrightarrow> fixHtml L wild = Returned (htmlEscapeString L wild))
   \<and> (htmlParse L wild = Inr n \<and> htmlRender L n = RenderError e' \<longrightarrow>
        fixHtml L wild = Returned (htmlEscapeString L wild))
   \<and> (htmlParse L wild = Inr n \<and> htmlRender L n = RenderPanic ErrTooLarge \<longrightarrow>
        fixHtml L wild = Returned (htmlEscapeString L wild))
   \<and> (htmlParse L wild = Inr n \<and> htmlRender L n = RenderPanic p \<and> p \<noteq> ErrTooLarge \<longrightarrow>
        fixHtml L wild = Panicked p)
   \<and> (htmlParse L wild = Inr n \<and> htmlRender L n = Rendered buf \<and> \<not> sublist ''<body>'' buf \<longrightarrow>
        fixHtml L wild = Returned (htmlEscapeString L wild))
   \<and> (htmlParse L wild = Inr n \<and> htmlRender L n = Rendered buf \<and> first_at ''<body>'' buf i
        \<and> \<not> sublist ''</body>'' (drop (i + length ''<body>'') buf) \<longrightarrow>
        fixHtml L wild = Returned (htmlEscapeString L wild))
   \<and> (htmlParse L wild = Inr n \<and> htmlRender L n = Rendered buf \<and> first_at ''<body>'' buf i
        \<and> first_at ''</body>'' (drop (i + length ''<body>'') buf) j \<longrightarrow>
        fixHtml L wild = Returned (take j (drop (i + length ''<body>'') buf))
        \<and> buf = take i buf @ ''<body>'' @ take j (drop (i + length ''<body>'') buf)
                  @ ''</body>'' @ drop (i + length ''<body>'' + j + length ''</body>'') buf)
   \<and> (renderGuarded L \<longrightarrow> (\<exists>well. fixHtml L wild = Returned well))"
proof (intro conjI impI)
  assume "htmlParse L wild = Inl e"
  then show "fixHtml L wild = Returned (htmlEscapeString L wild)"
    by (rule fixHtml_parse_error)
next
  assume "htmlParse L wild = Inr n \<and> htmlRender L n = RenderError e'"
  then show "fixHtml L wild = Returned (htmlEscapeString L wild)"
    by (simp add: fixHtml_not_rendered)
next
  assume "htmlParse L wild = Inr n \<and> htmlRender L n = RenderPanic ErrTooLarge"
  then show "fixHtml L wild = Returned (htmlEscapeString L wild)"
    by (simp add: fixHtml_not_rendered)
next
  assume "htmlParse L wild = Inr n \<and> htmlRender L n = RenderPanic p \<and> p \<noteq> ErrTooLarge"
  then show "fixHtml L wild = Panicked p"
    by (simp add: fixHtml_not_rendered)
next
  assume "htmlParse L wild = Inr n \<and> htmlRender L n = Rendered buf \<and> \<not> sublist ''<body>'' buf"
  then show "fixHtml L wild = Returned (htmlEscapeString L wild)"
    by (simp add: fixHtml_rendered openBody_def bytes_Index_absent)
next
  assume a: "htmlParse L wild = Inr n \<and> htmlRender L n = Rendered buf \<and> first_at ''<body>'' buf i
        \<and> \<not> sublist ''</body>'' (drop (i + length ''<body>'') buf)"
  have six: "length ''<body>'' = 6" by simp
  from a have "bytes_Index buf openBody = int i"
    by (simp add: openBody_def bytes_Index_first)
  moreover from a [unfolded six] have "\<not> sublist ''</body>'' (drop (i + 6) buf)" by blast
  then have "bytes_Index (drop (i + 6) buf) closeBody = - 1"
    unfolding closeBody_def by (rule bytes_Index_absent)
  ultimately show "fixHtml L wild = Returned (htmlEscapeString L wild)"
    using a by (simp add: fixHtml_rendered nat_add_distrib)
next
  assume a: "htmlParse L wild = Inr n \<and> htmlRender L n = Rendered buf \<and> first_at ''<body>'' buf i
        \<and> first_at ''</body>'' (drop (i + length ''<body>'') buf) j"
  have six: "length ''<body>'' = 6" by simp
  from a have i: "bytes_Index buf openBody = int i"
    by (simp add: openBody_def bytes_Index_first)
  from a [unfolded six] have "first_at ''</body>'' (drop (i + 6) buf) j" by blast
  then have j: "bytes_Index (drop (i + 6) buf) closeBody = int j"
    unfolding closeBody_def by (rule bytes_Index_first)
  from a have "fixHtml L wild = Returned (take j (drop (i + 6) buf))"
    by (simp add: fixHtml_rendered i j nat_add_distrib)
  then show "fixHtml L wild = Returned (take j (drop (i + length ''<body>'') buf))"
    unfolding six .
  from a have "buf = take i buf @ ''<body>'' @ drop (i + length ''<body>'') buf"
    by (blast dest: first_at_split)
  moreover from a have "drop (i + length ''<body>'') buf =
      take j (drop (i + length ''<body>'') buf) @ ''</body>''
        @ drop (j + length ''</body>'') (drop (i + length ''<body>'') buf)"
    by (blast dest: first_at_split)
  moreover have "drop (j + length ''</body>'') (drop (i + length ''<body>'') buf)
      = drop (i + length ''<body>'' + j + length ''</body>'') buf"
    by (simp only: drop_drop) (simp only: ac_simps)
  ultimately show "buf = take i buf @ ''<body>'' @ take j (drop (i + length ''<body>'') buf)
      @ ''</body>'' @ drop (i + length ''<body>'' + j + length ''</body>'') buf"
    by (simp only:)
next
  assume "renderGuarded L"
  then show "\<exists>well. fixHtml L wild = Returned well" by (rule fixHtml_returns)
qed

theorem fixHtml_cases_witness:
  "fixHtml (sampleLibs\<lparr>htmlParse := (\<lambda>w. Inl ''read error'')\<rparr>) ''<<<not html>>>''
     = Returned ''&lt;&lt;&lt;not html&gt;&gt;&gt;''
   \<and> fixHtml (sampleLibs\<lparr>htmlRender := (\<lambda>n. RenderError ''short write'')\<rparr>) ''a<b''
     = Returned ''a&lt;b''
   \<and> fixHtml (sampleLibs\<lparr>htmlRender := (\<lambda>n. RenderPanic ErrTooLarge)\<rparr>) ''a<b''
     = Returned ''a&lt;b''
   \<and> fixHtml (sampleLibs\<lparr>htmlRender := (\<lambda>n. RenderPanic (OtherPanic ''index out of range''))\<rparr>) ''a<b''
     = Panicked (OtherPanic ''index out of range'')
   \<and> \<not> sublist ''<body>'' ''a<b''
   \<and> fixHtml (sampleLibs\<lparr>htmlRender := (\<lambda>n. Rendered n)\<rparr>) ''a<b'' = Returned ''a&lt;b''
   \<and> first_at ''<body>'' ''<body>a<b'' 0
   \<and> \<not> sublist ''</body>'' (drop (0 + length ''<body>'') ''<body>a<b'')
   \<and> fixHtml (sampleLibs\<lparr>htmlRender := (\<lambda>n. Rendered (''<body>'' @ n))\<rparr>) ''a<b''
     = Returned ''a&lt;b''
   \<and> first_at ''<body>'' (htmlDocument ''<b>hi</b>'') 19
   \<and> first_at ''</body>'' (drop (19 + length ''<body>'') (htmlDocument ''<b>hi</b>'')) 9
   \<and> fixHtml sampleLibs ''<b>hi</b>'' = Returned ''<b>hi</b>''
   \<and> renderGuarded sampleLibs
   \<and> (\<exists>well. fixHtml sampleLibs ''a<b'' = Returned well)"
proof -
  have f1: "first_at ''<body>'' (htmlDocument ''<b>hi</b>'') 19"
    by (simp add: first_at_def htmlDocument_def upt_rec)
  have f2: "first_at ''</body>'' (drop (19 + length ''<body>'') (htmlDocument ''<b>hi</b>'')) 9"
    by (simp add: first_at_def htmlDocument_def upt_rec)
  have g: "renderGuarded sampleLibs"
    by (simp add: renderGuarded_def sampleLibs_def)
  have n1: "\<not> sublist ''<body>'' ''a<b''"
    by (simp add: sublist_Cons_right)
  have n2: "\<not> sublist ''</body>'' (drop (0 + length ''<body>'') ''<body>a<b'')"
    by (simp add: sublist_Cons_right)
  have n3: "first_at ''<body>'' ''<body>a<b'' 0"
    by (simp add: first_at_def)
  have c1: "fixHtml (sampleLibs\<lparr>htmlParse := (\<lambda>w. Inl ''read error'')\<rparr>) ''<<<not html>>>''
     = Returned ''&lt;&lt;&lt;not html&gt;&gt;&gt;''"
    using fixHtml_cases [where L = "sampleLibs\<lparr>htmlParse := (\<lambda>w. Inl ''read error'')\<rparr>"
        and wild = "''<<<not html>>>''" and e = "''read error''"]
    by (simp add: sampleLibs_def)
  have c2: "fixHtml (sampleLibs\<lparr>htmlRender := (\<lambda>n. RenderError ''short write'')\<rparr>) ''a<b''
     = Returned ''a&lt;b''"
    using fixHtml_cases [where L = "sampleLibs\<lparr>htmlRender := (\<lambda>n. RenderError ''short write'')\<rparr>"
        and wild = "''a<b''" and n = "''a<b''" and e' = "''short write''"]
    by (simp add: sampleLibs_def)
  have c3: "fixHtml (sampleLibs\<lparr>htmlRender := (\<lambda>n. RenderPanic ErrTooLarge)\<rparr>) ''a<b''
     = Returned ''a&lt;b''"
    using fixHtml_cases [where L = "sampleLibs\<lparr>htmlRender := (\<lambda>n. RenderPanic ErrTooLarge)\<rparr>"
        and wild = "''a<b''" and n = "''a<b''"]
    by (simp add: sampleLibs_def)
  have c4: "fixHtml (sampleLibs\<lparr>htmlRender := (\<lambda>n. RenderPanic (OtherPanic ''index out of range''))\<rparr>) ''a<b''
     = Panicked (OtherPanic ''index out of range'')"
    using fixHtml_cases [where L = "sampleLibs\<lparr>htmlRender := (\<lambda>n. RenderPanic (OtherPanic ''index out of range''))\<rparr>"
        and wild = "''a<b''" and n = "''a<b''" and p = "OtherPanic ''index out of range''"]
    by (simp add: sampleLibs_def)
  have c5: "fixHtml (sampleLibs\<lparr>htmlRender := (\<lambda>n. Rendered n)\<rparr>) ''a<b'' = Returned ''a&lt;b''"
    using n1 fixHtml_cases [where L = "sampleLibs\<lparr>htmlRender := (\<lambda>n. Rendered n)\<rparr>"
        and wild = "''a<b''" and n = "''a<b''" and buf = "''a<b''"]
    by (simp add: sampleLibs_def)
  have c6: "fixHtml (sampleLibs\<lparr>htmlRender := (\<lambda>n. Rendered (''<body>'' @ n))\<rparr>) ''a<b''
     = Returned ''a&lt;b''"
    using n2 n3 fixHtml_cases [where L = "sampleLibs\<lparr>htmlRender := (\<lambda>n. Rendered (''<body>'' @ n))\<rparr>"
        and wild = "''a<b''" and n = "''a<b''" and buf = "''<body>a<b''" and i = 0]
    by (simp add: sampleLibs_def)
  have c7: "fixHtml sampleLibs ''<b>hi</b>'' = Returned ''<b>hi</b>''"
    using f1 f2 fixHtml_cases [where L = sampleLibs and wild = "''<b>hi</b>''"
        and n = "''<b>hi</b>''" and buf = "htmlDocument ''<b>hi</b>''" and i = 19 and j = 9]
    by (simp add: sampleLibs_def htmlDocument_def)
  have c8: "\<exists>well. fixHtml sampleLibs ''a<b'' = Returned well"
    using g fixHtml_cases [where L = sampleLibs and wild = "''a<b''"] by blast
  from f1 f2 g n1 n2 n3 c1 c2 c3 c4 c5 c6 c7 c8 show ?thesis by blast
qed





section \<open>Properties of the two transforms\<close>

lemma fixHtml_Panicked:
  "fixHtml L wild = Panicked p \<Longrightarrow> p \<noteq> ErrTooLarge \<and> (\<exists>n. htmlRender L n = RenderPanic p)"
  unfolding fixHtml_def fixHtml_render_def fixHtml_recover_def Let_def
  by (auto split: sum.splits render_result.splits if_splits)

lemma firstBadTime_Cons:
  "firstBadTime L (s # ss) = (if badTime L s then Some s else firstBadTime L ss)"
  by (simp add: firstBadTime_def)

lemma rssTime_cases:
  "rssTime L s = (t, e) \<Longrightarrow>
     e = (if badTime L s then Some (ErrBadTime s) else None) \<and> (badTime L s \<longrightarrow> t = zeroTime)"
  using rssTime_err [of L s] rssTime_bad_zero [of L s] by auto

lemma rssFeed_loop_Returned:
  "rssFeed_loop L its f err = Returned (F, err') \<Longrightarrow>
     Feed_Title F = Feed_Title f \<and> Feed_Link F = Feed_Link f \<and> Feed_Updated F = Feed_Updated f
     \<and> (\<exists>es. Feed_Entries F = Feed_Entries f @ es \<and> list_all2 (rssEntry_populated L) its es)
     \<and> err' = (case err of
                 Some e \<Rightarrow> Some e
               | None \<Rightarrow> map_option ErrBadTime (firstBadTime L (map rssItem_Updated its)))"
proof (induction its arbitrary: f err)
  case Nil
  then show ?case by (simp add: firstBadTime_def split: option.splits)
next
  case (Cons it its)
  obtain t e where te: "rssTime L (rssItem_Updated it) = (t, e)"
    by (cases "rssTime L (rssItem_Updated it)")
  from Cons.prems te obtain summary content where
    s: "fixHtml L (rssItem_Description it) = Returned summary" and
    c: "fixHtml L (rssContent_Data (rssItem_Content it)) = Returned content" and
    rest: "rssFeed_loop L its
             (f\<lparr>Feed_Entries := Feed_Entries f @
                [\<lparr>Entry_Title = rssItem_Title it, Entry_Link = rssItem_Link it,
                  Entry_Summary = summary, Entry_Content = content, Entry_When = t\<rparr>]\<rparr>)
             (if err = None \<and> e \<noteq> None then e else err) = Returned (F, err')"
    by (auto simp: Let_def split: outcome.splits)
  have pop: "rssEntry_populated L it
      \<lparr>Entry_Title = rssItem_Title it, Entry_Link = rssItem_Link it,
       Entry_Summary = summary, Entry_Content = content, Entry_When = t\<rparr>"
    using s c te by (simp add: rssEntry_populated_def)
  from Cons.IH [OF rest] obtain es where
    es: "Feed_Entries F = (Feed_Entries f @
                [\<lparr>Entry_Title = rssItem_Title it, Entry_Link = rssItem_Link it,
                  Entry_Summary = summary, Entry_Content = content, Entry_When = t\<rparr>]) @ es"
      "list_all2 (rssEntry_populated L) its es"
    and fields: "Feed_Title F = Feed_Title f" "Feed_Link F = Feed_Link f"
      "Feed_Updated F = Feed_Updated f"
    and err': "err' = (case (if err = None \<and> e \<noteq> None then e else err) of
                 Some e \<Rightarrow> Some e
               | None \<Rightarrow> map_option ErrBadTime (firstBadTime L (map rssItem_Updated its)))"
    by auto
  from es pop have "\<exists>es'. Feed_Entries F = Feed_Entries f @ es'
      \<and> list_all2 (rssEntry_populated L) (it # its) es'"
    by (intro exI [of _ "_ # es"]) simp
  moreover from err' rssTime_cases [OF te]
  have "err' = (case err of
                 Some e \<Rightarrow> Some e
               | None \<Rightarrow> map_option ErrBadTime (firstBadTime L (map rssItem_Updated (it # its))))"
    by (auto simp: firstBadTime_Cons split: option.splits)
  ultimately show ?case using fields by simp
qed

lemma rssFeed_loop_Panicked:
  "rssFeed_loop L its f err = Panicked p \<Longrightarrow> \<exists>wild. fixHtml L wild = Panicked p"
proof (induction its arbitrary: f err)
  case Nil
  then show ?case by simp
next
  case (Cons it its)
  then show ?case
    by (cases "rssTime L (rssItem_Updated it)")
       (auto simp: Let_def split: outcome.splits)
qed

lemma rssFeed_Returned:
  assumes "rssFeed L r = Returned (F, err)"
  shows "rssFeed_populated L r F"
    and "err = map_option ErrBadTime (firstBadTime L (rssTimestamps r))"
proof -
  obtain t e where te: "rssTime L (rss_Updated r) = (t, e)"
    by (cases "rssTime L (rss_Updated r)")
  with assms have loop: "rssFeed_loop L (rss_Items r)
      \<lparr>Feed_Title = rss_Title r, Feed_Link = rss_Link r, Feed_Updated = t, Feed_Entries = []\<rparr> e
      = Returned (F, err)"
    by (simp add: rssFeed_def)
  from rssFeed_loop_Returned [OF loop] te show "rssFeed_populated L r F"
    by (auto simp: rssFeed_populated_def)
  from rssFeed_loop_Returned [OF loop] rssTime_cases [OF te]
  show "err = map_option ErrBadTime (firstBadTime L (rssTimestamps r))"
    by (auto simp: rssTimestamps_def firstBadTime_Cons)
qed

lemma rssFeed_Panicked:
  "rssFeed L r = Panicked p \<Longrightarrow> \<exists>wild. fixHtml L wild = Panicked p"
  by (cases "rssTime L (rss_Updated r)") (auto simp: rssFeed_def dest: rssFeed_loop_Panicked)

lemma outcome_cases:
  obtains (Returned) F err where "x = Returned (F, err)" | (Panicked) p where "x = Panicked p"
  by (cases x) auto

lemma atomFeed_entry_Returned:
  "atomFeed_entry L ent = Returned e \<Longrightarrow>
     atomEntry_populated L ent e
     \<and> (case atomEntry_Content ent of
          [] \<Rightarrow> Entry_Content e = []
        | c # cs \<Rightarrow> fixHtml L (atomContent_Data L c) = Returned (Entry_Content e))"
  by (cases "atomEntry_Content ent")
     (auto simp: atomFeed_entry_def atomEntry_populated_def Let_def split: outcome.splits)

lemma atomFeed_entry_Panicked:
  "atomFeed_entry L ent = Panicked p \<Longrightarrow> \<exists>wild. fixHtml L wild = Panicked p"
  by (auto simp: atomFeed_entry_def Let_def split: outcome.splits if_splits)

lemma atomFeed_loop_Returned:
  "atomFeed_loop L ents f = Returned F \<Longrightarrow>
     Feed_Title F = Feed_Title f \<and> Feed_Link F = Feed_Link f \<and> Feed_Updated F = Feed_Updated f
     \<and> (\<exists>es. Feed_Entries F = Feed_Entries f @ es
           \<and> list_all2 (\<lambda>ent e. atomFeed_entry L ent = Returned e) ents es)"
proof (induction ents arbitrary: f)
  case Nil
  then show ?case by simp
next
  case (Cons ent ents)
  from Cons.prems obtain e where
    e: "atomFeed_entry L ent = Returned e" and
    rest: "atomFeed_loop L ents (f\<lparr>Feed_Entries := Feed_Entries f @ [e]\<rparr>) = Returned F"
    by (auto split: outcome.splits)
  from Cons.IH [OF rest] obtain es where
    "Feed_Entries F = (Feed_Entries f @ [e]) @ es"
    "list_all2 (\<lambda>ent e. atomFeed_entry L ent = Returned e) ents es"
    and fields: "Feed_Title F = Feed_Title f" "Feed_Link F = Feed_Link f"
      "Feed_Updated F = Feed_Updated f"
    by auto
  with e have "\<exists>es'. Feed_Entries F = Feed_Entries f @ es'
      \<and> list_all2 (\<lambda>ent e. atomFeed_entry L ent = Returned e) (ent # ents) es'"
    by (intro exI [of _ "e # es"]) simp
  with fields show ?case by simp
qed

lemma atomFeed_loop_Panicked:
  "atomFeed_loop L ents f = Panicked p \<Longrightarrow> \<exists>wild. fixHtml L wild = Panicked p"
proof (induction ents arbitrary: f)
  case Nil
  then show ?case by simp
next
  case (Cons ent ents)
  then show ?case
    by (auto split: outcome.splits dest: atomFeed_entry_Panicked)
qed

lemma atomFeed_Returned:
  assumes "atomFeed L a = Returned (F, err)"
  shows "err = None"
    and "Feed_Title F = feed_Title a" and "Feed_Link F = feed_link a"
    and "Feed_Updated F = feed_Updated a"
    and "list_all2 (\<lambda>ent e. atomFeed_entry L ent = Returned e) (feed_Entries a) (Feed_Entries F)"
proof -
  from assms have loop: "atomFeed_loop L (feed_Entries a)
      \<lparr>Feed_Title = feed_Title a, Feed_Link = feed_link a,
       Feed_Updated = feed_Updated a, Feed_Entries = []\<rparr> = Returned F"
    and e: "err = None"
    by (auto simp: atomFeed_def split: outcome.splits)
  from e show "err = None" .
  from atomFeed_loop_Returned [OF loop]
  show "Feed_Title F = feed_Title a" and "Feed_Link F = feed_link a"
    and "Feed_Updated F = feed_Updated a"
    and "list_all2 (\<lambda>ent e. atomFeed_entry L ent = Returned e) (feed_Entries a) (Feed_Entries F)"
    by auto
qed

lemma atomFeed_Panicked:
  "atomFeed L a = Panicked p \<Longrightarrow> \<exists>wild. fixHtml L wild = Panicked p"
  by (auto simp: atomFeed_def split: outcome.splits dest: atomFeed_loop_Panicked)

lemma guarded_not_Panicked: "renderGuarded L \<Longrightarrow> fixHtml L wild \<noteq> Panicked p"
  using fixHtml_returns [of L wild] by auto

lemma Read_news: "Read sampleLibs newsRss_xml = Returned (newsFeed, Some (ErrBadTime ''yesterday''))"
  by code_simp

lemma Read_blog: "Read sampleLibs blog_xml = Returned (blogFeed, None)"
  by code_simp

lemma Read_empty: "Read sampleLibs [] = Returned (zeroFeed, Some (DecodeError ''EOF''))"
  by code_simp

lemma rssFeed_news: "rssFeed sampleLibs newsRss = Returned (newsFeed, Some (ErrBadTime ''yesterday''))"
  by code_simp

lemma rssFeed_late: "rssFeed sampleLibs lateRss = Returned (lateFeed, Some (ErrBadTime ''someday''))"
  by code_simp

lemma atomFeed_blog: "atomFeed sampleLibs blog = Returned (blogFeed, None)"
  by code_simp

lemma sampleLibs_guarded: "renderGuarded sampleLibs"
  by (simp add: renderGuarded_def sampleLibs_def)

lemma decode_samples:
  "xmlDecode sampleLibs [] = Inl ''EOF''"
  "xmlDecode sampleLibs newsRss_xml = Inr (rssDocument newsRss)"
  "xmlDecode sampleLibs lateRss_xml = Inr (rssDocument lateRss)"
  "xmlDecode sampleLibs untitledRss_xml = Inr (rssDocument untitledRss)"
  "xmlDecode sampleLibs blog_xml = Inr blog"
  "xmlDecode sampleLibs datedRss_xml = Inr (rssDocument datedRss)"
  by code_simp+

lemma rssFeed_returns: "renderGuarded L \<Longrightarrow> \<exists>F err. rssFeed L r = Returned (F, err)"
  by (cases "rssFeed L r" rule: outcome_cases)
     (auto dest!: rssFeed_Panicked simp: guarded_not_Panicked)

lemma atomFeed_returns: "renderGuarded L \<Longrightarrow> \<exists>F. atomFeed L a = Returned (F, None)"
  by (cases "atomFeed L a" rule: outcome_cases)
     (auto dest!: atomFeed_Panicked dest: atomFeed_Returned(1) simp: guarded_not_Panicked)

text \<open>
  C2: \<open>rssFeed\<close> produces at most one \<open>ErrBadTime\<close>, and it carries the first timestamp
  that fails to parse in traversal order: the one of the channel first, then the ones
  of the items in document order. There is one entry per item; every entry has its
  title, link, summary and content, also when its timestamp fails to parse, and then
  its time is the zero instant. The call returns when the renderer raises no panic but
  \<^verbatim>\<open>bytes.ErrTooLarge\<close>.
\<close>

theorem rssFeed_first_bad_time:
  "(renderGuarded L \<longrightarrow> (\<exists>F err. rssFeed L r = Returned (F, err)))
   \<and> (rssFeed L r = Returned (F, err) \<longrightarrow>
        err = map_option ErrBadTime
                (List.find (badTime L) (rss_Updated r # map rssItem_Updated (rss_Items r)))
        \<and> length (Feed_Entries F) = length (rss_Items r)
        \<and> (\<forall>i<length (rss_Items r).
              Entry_Title (Feed_Entries F ! i) = rssItem_Title (rss_Items r ! i)
              \<and> Entry_Link (Feed_Entries F ! i) = rssItem_Link (rss_Items r ! i)
              \<and> fixHtml L (rssItem_Description (rss_Items r ! i))
                  = Returned (Entry_Summary (Feed_Entries F ! i))
              \<and> fixHtml L (rssContent_Data (rssItem_Content (rss_Items r ! i)))
                  = Returned (Entry_Content (Feed_Entries F ! i))
              \<and> (badTime L (rssItem_Updated (rss_Items r ! i))
                   \<longrightarrow> Entry_When (Feed_Entries F ! i) = zeroTime)))"
proof (intro conjI impI)
  assume "renderGuarded L"
  then show "\<exists>F err. rssFeed L r = Returned (F, err)" by (rule rssFeed_returns)
next
  assume R: "rssFeed L r = Returned (F, err)"
  from rssFeed_Returned(2) [OF R]
  show "err = map_option ErrBadTime
                (List.find (badTime L) (rss_Updated r # map rssItem_Updated (rss_Items r)))"
    by (simp add: firstBadTime_def rssTimestamps_def)
  from rssFeed_Returned(1) [OF R]
  have all: "list_all2 (rssEntry_populated L) (rss_Items r) (Feed_Entries F)"
    by (simp add: rssFeed_populated_def)
  then show "length (Feed_Entries F) = length (rss_Items r)"
    by (simp add: list_all2_lengthD)
  show "\<forall>i<length (rss_Items r).
              Entry_Title (Feed_Entries F ! i) = rssItem_Title (rss_Items r ! i)
              \<and> Entry_Link (Feed_Entries F ! i) = rssItem_Link (rss_Items r ! i)
              \<and> fixHtml L (rssItem_Description (rss_Items r ! i))
                  = Returned (Entry_Summary (Feed_Entries F ! i))
              \<and> fixHtml L (rssContent_Data (rssItem_Content (rss_Items r ! i)))
                  = Returned (Entry_Content (Feed_Entries F ! i))
              \<and> (badTime L (rssItem_Updated (rss_Items r ! i))
                   \<longrightarrow> Entry_When (Feed_Entries F ! i) = zeroTime)"
  proof (intro allI impI)
    fix i assume "i < length (rss_Items r)"
    with all have "rssEntry_populated L (rss_Items r ! i) (Feed_Entries F ! i)"
      by (rule list_all2_nthD)
    then show "Entry_Title (Feed_Entries F ! i) = rssItem_Title (rss_Items r ! i)
              \<and> Entry_Link (Feed_Entries F ! i) = rssItem_Link (rss_Items r ! i)
              \<and> fixHtml L (rssItem_Description (rss_Items r ! i))
                  = Returned (Entry_Summary (Feed_Entries F ! i))
              \<and> fixHtml L (rssContent_Data (rssItem_Content (rss_Items r ! i)))
                  = Returned (Entry_Content (Feed_Entries F ! i))
              \<and> (badTime L (rssItem_Updated (rss_Items r ! i))
                   \<longrightarrow> Entry_When (Feed_Entries F ! i) = zeroTime)"
      by (simp add: rssEntry_populated_def rssTime_bad_zero)
  qed
qed

theorem rssFeed_first_bad_time_witness:
  "renderGuarded sampleLibs
   \<and> rssFeed sampleLibs newsRss = Returned (newsFeed, Some (ErrBadTime ''yesterday''))
   \<and> List.find (badTime sampleLibs)
        (rss_Updated newsRss # map rssItem_Updated (rss_Items newsRss)) = Some ''yesterday''
   \<and> length (Feed_Entries newsFeed) = 3
   \<and> badTime sampleLibs (rssItem_Updated (rss_Items newsRss ! 2))
   \<and> Entry_Title (Feed_Entries newsFeed ! 2) = ''C''
   \<and> Entry_Summary (Feed_Entries newsFeed ! 2) = ''<p>C</p>''
   \<and> Entry_When (Feed_Entries newsFeed ! 2) = zeroTime
   \<and> rssFeed sampleLibs lateRss = Returned (lateFeed, Some (ErrBadTime ''someday''))
   \<and> List.find (badTime sampleLibs)
        (rss_Updated lateRss # map rssItem_Updated (rss_Items lateRss)) = Some ''someday''"
proof -
  have b: "badTime sampleLibs (rssItem_Updated (rss_Items newsRss ! 2))"
    by code_simp
  have l: "(2::nat) < length (rss_Items newsRss)" "length (rss_Items newsRss) = 3"
    by code_simp+
  have t: "rssItem_Title (rss_Items newsRss ! 2) = ''C''"
    by code_simp
  have d: "fixHtml sampleLibs (rssItem_Description (rss_Items newsRss ! 2)) = Returned ''<p>C</p>''"
    by code_simp
  note n = rssFeed_first_bad_time [of sampleLibs newsRss newsFeed "Some (ErrBadTime ''yesterday'')"]
  note m = rssFeed_first_bad_time [of sampleLibs lateRss lateFeed "Some (ErrBadTime ''someday'')"]
  from n rssFeed_news have
    "Some (ErrBadTime ''yesterday'') = map_option ErrBadTime (List.find (badTime sampleLibs)
        (rss_Updated newsRss # map rssItem_Updated (rss_Items newsRss)))"
    by blast
  then have f1: "List.find (badTime sampleLibs)
        (rss_Updated newsRss # map rssItem_Updated (rss_Items newsRss)) = Some ''yesterday''"
    by (cases "List.find (badTime sampleLibs)
        (rss_Updated newsRss # map rssItem_Updated (rss_Items newsRss))") auto
  from m rssFeed_late have
    "Some (ErrBadTime ''someday'') = map_option ErrBadTime (List.find (badTime sampleLibs)
        (rss_Updated lateRss # map rssItem_Updated (rss_Items lateRss)))"
    by blast
  then have f2: "List.find (badTime sampleLibs)
        (rss_Updated lateRss # map rssItem_Updated (rss_Items lateRss)) = Some ''someday''"
    by (cases "List.find (badTime sampleLibs)
        (rss_Updated lateRss # map rssItem_Updated (rss_Items lateRss))") auto
  from n rssFeed_news l(1) have two:
    "Entry_Title (Feed_Entries newsFeed ! 2) = rssItem_Title (rss_Items newsRss ! 2)
     \<and> fixHtml sampleLibs (rssItem_Description (rss_Items newsRss ! 2))
                  = Returned (Entry_Summary (Feed_Entries newsFeed ! 2))
     \<and> (badTime sampleLibs (rssItem_Updated (rss_Items newsRss ! 2))
                   \<longrightarrow> Entry_When (Feed_Entries newsFeed ! 2) = zeroTime)"
    and len: "length (Feed_Entries newsFeed) = length (rss_Items newsRss)"
    by blast+
  from two b t d len l(2) f1 f2 sampleLibs_guarded rssFeed_news rssFeed_late
  show ?thesis by simp
qed

section \<open>Properties of the entry point and of the Atom transform\<close>

lemma fixHtml_timeParse: "fixHtml (L\<lparr>timeParse := tp\<rparr>) wild = fixHtml L wild"
  by (auto simp: fixHtml_def fixHtml_render_def fixHtml_recover_def Let_def
      split: sum.splits render_result.splits)

lemma atomFeed_entry_timeParse:
  "atomFeed_entry (L\<lparr>timeParse := tp\<rparr>) ent = atomFeed_entry L ent"
  by (auto simp: atomFeed_entry_def atomContent_Data_def fixHtml_timeParse Let_def
      split: outcome.splits)

lemma atomFeed_loop_timeParse:
  "atomFeed_loop (L\<lparr>timeParse := tp\<rparr>) ents f = atomFeed_loop L ents f"
  by (induction ents arbitrary: f)
     (simp_all add: atomFeed_entry_timeParse split: outcome.splits)

lemma atomFeed_timeParse: "atomFeed (L\<lparr>timeParse := tp\<rparr>) a = atomFeed L a"
  by (simp add: atomFeed_def atomFeed_loop_timeParse)

lemma link_loop_canonical: "link_loop ls = canonicalLink ls"
  by (induction ls) (auto simp: canonicalLink_def)

lemma feed_link_canonical: "feed_link f = canonicalLink (feed_Links f)"
  by (simp add: feed_link_def link_loop_canonical)

lemma firstBadTime_None:
  "list_all (\<lambda>s. \<not> badTime L s) ss \<Longrightarrow> firstBadTime L ss = None"
  by (induction ss) (simp_all add: firstBadTime_def)

lemma atomFeed_populated:
  assumes "atomFeed L a = Returned (F, err)"
  shows "list_all2 (atomEntry_populated L) (feed_Entries a) (Feed_Entries F)"
  using atomFeed_Returned(5) [OF assms]
  by (rule list_all2_mono) (simp add: atomFeed_entry_Returned)

text \<open>
  C7: after the decoder has filled the record, \<open>Read\<close> transforms it as RSS if the title
  of the channel is not empty, and as Atom otherwise.
\<close>

theorem Read_dialect:
  assumes "xmlDecode L r = Inr f"
  shows "(rss_Title (feed_Rss f) \<noteq> [] \<longrightarrow> Read L r = rssFeed L (feed_Rss f))
       \<and> (rss_Title (feed_Rss f) = [] \<longrightarrow> Read L r = atomFeed L f)"
  using assms by (simp add: Read_def)

theorem Read_dialect_witness:
  "xmlDecode sampleLibs newsRss_xml = Inr (rssDocument newsRss)
   \<and> rss_Title (feed_Rss (rssDocument newsRss)) = ''News''
   \<and> Read sampleLibs newsRss_xml = rssFeed sampleLibs newsRss
   \<and> rssFeed sampleLibs newsRss = Returned (newsFeed, Some (ErrBadTime ''yesterday''))
   \<and> xmlDecode sampleLibs blog_xml = Inr blog
   \<and> rss_Title (feed_Rss blog) = []
   \<and> Read sampleLibs blog_xml = atomFeed sampleLibs blog
   \<and> atomFeed sampleLibs blog = Returned (blogFeed, None)"
proof -
  have t: "rss_Title (feed_Rss (rssDocument newsRss)) = ''News''" "rss_Title (feed_Rss blog) = []"
    "feed_Rss (rssDocument newsRss) = newsRss"
    by code_simp+
  from Read_dialect [OF decode_samples(2)] Read_dialect [OF decode_samples(5)] t
    decode_samples(2,5) rssFeed_news atomFeed_blog
  show ?thesis by simp
qed

text \<open>
  C10: for a document that decodes and whose channel title is empty, \<open>Read\<close> returns no
  error: whenever it returns, the error is \<open>None\<close>, and it returns when the renderer
  raises no panic but \<^verbatim>\<open>bytes.ErrTooLarge\<close>. The Atom transform does not parse any
  timestamp: the result is the same with any other \<^verbatim>\<open>time.Parse\<close>.
\<close>

theorem Read_atom_no_error:
  assumes "xmlDecode L r = Inr f" and "rss_Title (feed_Rss f) = []"
  shows "(Read L r = Returned (F, err) \<longrightarrow> err = None)
       \<and> (renderGuarded L \<longrightarrow> (\<exists>F'. Read L r = Returned (F', None)))
       \<and> Read (L\<lparr>timeParse := tp\<rparr>) r = Read L r"
proof -
  from assms have R: "Read L r = atomFeed L f" by (simp add: Read_def)
  from assms have R': "Read (L\<lparr>timeParse := tp\<rparr>) r = atomFeed (L\<lparr>timeParse := tp\<rparr>) f"
    by (simp add: Read_def)
  from R have "Read L r = Returned (F, err) \<longrightarrow> err = None"
    by (auto dest: atomFeed_Returned(1))
  moreover from R have "renderGuarded L \<longrightarrow> (\<exists>F'. Read L r = Returned (F', None))"
    by (auto dest: atomFeed_returns)
  moreover from R R' have "Read (L\<lparr>timeParse := tp\<rparr>) r = Read L r"
    by (simp add: atomFeed_timeParse)
  ultimately show ?thesis by blast
qed

theorem Read_atom_no_error_witness:
  "xmlDecode sampleLibs blog_xml = Inr blog
   \<and> rss_Title (feed_Rss blog) = []
   \<and> renderGuarded sampleLibs
   \<and> Read sampleLibs blog_xml = Returned (blogFeed, None)
   \<and> Read (sampleLibs\<lparr>timeParse := (\<lambda>layout v. None)\<rparr>) blog_xml = Returned (blogFeed, None)"
proof -
  have t: "rss_Title (feed_Rss blog) = []" by code_simp
  from Read_atom_no_error [OF decode_samples(5) t, of blogFeed None "\<lambda>layout v. None"]
    decode_samples(5) t sampleLibs_guarded Read_blog
  show ?thesis by simp
qed

text \<open>
  C8: for an Atom entry with one or more content elements, the content of the entry is
  what \<open>fixHtml\<close> returns for the first one: for its bytes unescaped when its type is
  not \<open>xhtml\<close>, for its bytes as they are when its type is \<open>xhtml\<close>. The content elements
  after the first do not contribute.
\<close>

theorem atomFeed_first_content:
  "(atomFeed L a = Returned (F, err) \<and> i < length (feed_Entries a)
      \<and> atomEntry_Content (feed_Entries a ! i) = c # cs \<longrightarrow>
        fixHtml L (if atomContent_Type c \<noteq> ''xhtml''
                   then htmlUnescapeString L (atomContent_Contents c)
                   else atomContent_Contents c)
          = Returned (Entry_Content (Feed_Entries F ! i)))
   \<and> atomFeed_entry L (ent\<lparr>atomEntry_Content := c # cs\<rparr>)
       = atomFeed_entry L (ent\<lparr>atomEntry_Content := [c]\<rparr>)
   \<and> (renderGuarded L \<longrightarrow> (\<exists>F'. atomFeed L a = Returned (F', None)))"
proof (intro conjI impI)
  assume A: "atomFeed L a = Returned (F, err) \<and> i < length (feed_Entries a)
      \<and> atomEntry_Content (feed_Entries a ! i) = c # cs"
  then have "list_all2 (\<lambda>ent e. atomFeed_entry L ent = Returned e) (feed_Entries a) (Feed_Entries F)"
    by (blast dest: atomFeed_Returned(5))
  with A have "atomFeed_entry L (feed_Entries a ! i) = Returned (Feed_Entries F ! i)"
    by (auto dest: list_all2_nthD)
  from atomFeed_entry_Returned [OF this] A
  show "fixHtml L (if atomContent_Type c \<noteq> ''xhtml''
                   then htmlUnescapeString L (atomContent_Contents c)
                   else atomContent_Contents c)
          = Returned (Entry_Content (Feed_Entries F ! i))"
    by (simp add: atomContent_Data_def)
next
  show "atomFeed_entry L (ent\<lparr>atomEntry_Content := c # cs\<rparr>)
       = atomFeed_entry L (ent\<lparr>atomEntry_Content := [c]\<rparr>)"
    by (simp add: atomFeed_entry_def Let_def split: outcome.splits)
next
  assume "renderGuarded L"
  then show "\<exists>F'. atomFeed L a = Returned (F', None)" by (rule atomFeed_returns)
qed

theorem atomFeed_first_content_witness:
  "atomFeed sampleLibs blog = Returned (blogFeed, None)
   \<and> atomEntry_Content (feed_Entries blog ! 0)
       = \<lparr>atomContent_Type = ''html'', atomContent_Contents = ''&lt;i&gt;x&lt;/i&gt;''\<rparr>
         # [\<lparr>atomContent_Type = ''xhtml'', atomContent_Contents = ''<u>y</u>''\<rparr>]
   \<and> htmlUnescapeString sampleLibs ''&lt;i&gt;x&lt;/i&gt;'' = ''<i>x</i>''
   \<and> fixHtml sampleLibs ''<i>x</i>'' = Returned (Entry_Content (Feed_Entries blogFeed ! 0))
   \<and> Entry_Content (Feed_Entries blogFeed ! 0) = ''<i>x</i>''
   \<and> atomEntry_Content (feed_Entries blog ! 1)
       = \<lparr>atomContent_Type = ''xhtml'', atomContent_Contents = ''<u>&lt;</u>''\<rparr> # []
   \<and> fixHtml sampleLibs ''<u>&lt;</u>'' = Returned (Entry_Content (Feed_Entries blogFeed ! 1))
   \<and> Entry_Content (Feed_Entries blogFeed ! 1) = ''<u>&lt;</u>''"
proof -
  have c0: "atomEntry_Content (feed_Entries blog ! 0)
       = \<lparr>atomContent_Type = ''html'', atomContent_Contents = ''&lt;i&gt;x&lt;/i&gt;''\<rparr>
         # [\<lparr>atomContent_Type = ''xhtml'', atomContent_Contents = ''<u>y</u>''\<rparr>]"
    by code_simp
  have c1: "atomEntry_Content (feed_Entries blog ! 1)
       = \<lparr>atomContent_Type = ''xhtml'', atomContent_Contents = ''<u>&lt;</u>''\<rparr> # []"
    by code_simp
  have l: "0 < length (feed_Entries blog)" "1 < length (feed_Entries blog)"
    by code_simp+
  have u: "htmlUnescapeString sampleLibs ''&lt;i&gt;x&lt;/i&gt;'' = ''<i>x</i>''"
    by code_simp
  have v: "Entry_Content (Feed_Entries blogFeed ! 0) = ''<i>x</i>''"
    "Entry_Content (Feed_Entries blogFeed ! 1) = ''<u>&lt;</u>''"
    by code_simp+
  from atomFeed_first_content [of sampleLibs blog blogFeed None 0
      "\<lparr>atomContent_Type = ''html'', atomContent_Contents = ''&lt;i&gt;x&lt;/i&gt;''\<rparr>"
      "[\<lparr>atomContent_Type = ''xhtml'', atomContent_Contents = ''<u>y</u>''\<rparr>]" "feed_Entries blog ! 0"]
    atomFeed_blog l(1) c0 u
  have a0: "fixHtml sampleLibs ''<i>x</i>'' = Returned (Entry_Content (Feed_Entries blogFeed ! 0))"
    by simp
  from atomFeed_first_content [of sampleLibs blog blogFeed None 1
      "\<lparr>atomContent_Type = ''xhtml'', atomContent_Contents = ''<u>&lt;</u>''\<rparr>" "[]"
      "feed_Entries blog ! 1"]
    atomFeed_blog l(2) c1
  have a1: "fixHtml sampleLibs ''<u>&lt;</u>'' = Returned (Entry_Content (Feed_Entries blogFeed ! 1))"
    by simp
  from atomFeed_blog c0 c1 u v a0 a1 show ?thesis by simp
qed

text \<open>
  C1: what \<open>Read\<close> returns. The error is \<open>None\<close>; or it is the error of the XML decoder
  and the feed is the zero \<open>Feed\<close>; or it is \<open>ErrBadTime\<close> carrying the first timestamp
  of the RSS document, in traversal order, that no format parses, and the feed is fully
  populated from the channel and its items. The only other outcome is that a panic of
  the HTML renderer that is not \<^verbatim>\<open>bytes.ErrTooLarge\<close> passes through \<open>fixHtml\<close>.
\<close>

theorem Read_results:
  "(\<exists>p n. Read L r = Panicked p \<and> p \<noteq> ErrTooLarge \<and> htmlRender L n = RenderPanic p)
   \<or> (\<exists>F. Read L r = Returned (F, None))
   \<or> (\<exists>m. xmlDecode L r = Inl m \<and> Read L r = Returned (zeroFeed, Some (DecodeError m)))
   \<or> (\<exists>f F s. xmlDecode L r = Inr f \<and> rss_Title (feed_Rss f) \<noteq> []
         \<and> Read L r = Returned (F, Some (ErrBadTime s))
         \<and> firstBadTime L (rssTimestamps (feed_Rss f)) = Some s
         \<and> rssFeed_populated L (feed_Rss f) F)"
proof (cases "xmlDecode L r")
  case (Inl m)
  then show ?thesis by (simp add: Read_def)
next
  case (Inr f)
  show ?thesis
  proof (cases "rss_Title (feed_Rss f) = []")
    case True
    with Inr have R: "Read L r = atomFeed L f" by (simp add: Read_def)
    show ?thesis
    proof (cases "atomFeed L f" rule: outcome_cases)
      case (Returned F err)
      with R atomFeed_Returned(1) [OF Returned] show ?thesis by simp
    next
      case (Panicked p)
      with R atomFeed_Panicked [OF Panicked] show ?thesis
        by (auto dest: fixHtml_Panicked)
    qed
  next
    case False
    with Inr have R: "Read L r = rssFeed L (feed_Rss f)" by (simp add: Read_def)
    show ?thesis
    proof (cases "rssFeed L (feed_Rss f)" rule: outcome_cases)
      case (Returned F err)
      note pop = rssFeed_Returned [OF Returned]
      show ?thesis
      proof (cases "firstBadTime L (rssTimestamps (feed_Rss f))")
        case None
        with pop R Returned show ?thesis by simp
      next
        case (Some s)
        with pop R Returned Inr False show ?thesis by simp
      qed
    next
      case (Panicked p)
      with R rssFeed_Panicked [OF Panicked] show ?thesis
        by (auto dest: fixHtml_Panicked)
    qed
  qed
qed


lemma Read_dated: "Read sampleLibs datedRss_xml = Returned (datedFeed, None)"
  by code_simp

theorem Read_results_witness:
  "xmlDecode sampleLibs [] = Inl ''EOF''
   \<and> Read sampleLibs [] = Returned (zeroFeed, Some (DecodeError ''EOF''))
   \<and> xmlDecode sampleLibs newsRss_xml = Inr (rssDocument newsRss)
   \<and> Read sampleLibs newsRss_xml = Returned (newsFeed, Some (ErrBadTime ''yesterday''))
   \<and> firstBadTime sampleLibs (rssTimestamps newsRss) = Some ''yesterday''
   \<and> rssFeed_populated sampleLibs newsRss newsFeed
   \<and> Read sampleLibs datedRss_xml = Returned (datedFeed, None)"
proof -
  have r: "feed_Rss (rssDocument newsRss) = newsRss" by (simp add: rssDocument_def)
  from Read_results [of sampleLibs newsRss_xml] Read_news decode_samples(2) r
  have "firstBadTime sampleLibs (rssTimestamps newsRss) = Some ''yesterday''
      \<and> rssFeed_populated sampleLibs newsRss newsFeed"
    by auto
  with decode_samples(1,2) Read_empty Read_news Read_dated show ?thesis by simp
qed

text \<open>
  C3, as stated, fails on an RSS document whose channel title is empty: the document
  \<open>untitledRss_xml\<close> has a channel with an empty title and one item with a recognized
  date; it is transformed as Atom, and the feed returned has no entry.
\<close>

theorem Read_untitled_channel_counterexample:
  "xmlDecode sampleLibs untitledRss_xml = Inr (rssDocument untitledRss)
   \<and> rss_Items (feed_Rss (rssDocument untitledRss)) = [sampleItem ''B'' ''02 January 2006'']
   \<and> rssItem_Updated (sampleItem ''B'' ''02 January 2006'') = ''02 January 2006''
   \<and> rssTime sampleLibs ''02 January 2006'' = (Instant 63271756800 0, None)
   \<and> Read sampleLibs untitledRss_xml = Returned (zeroFeed, None)
   \<and> length (Feed_Entries zeroFeed) = 0
   \<and> length (rss_Items (feed_Rss (rssDocument untitledRss))) = 1"
  by code_simp

text \<open>
  C3, amended: for a document that decodes, when the renderer raises no panic but
  \<^verbatim>\<open>bytes.ErrTooLarge\<close>: if the channel title is not empty and every timestamp of the
  channel and its items is empty or parsed by a format, \<open>Read\<close> returns no error and a
  feed with exactly one entry per item, in document order; if the channel title is
  empty, \<open>Read\<close> returns no error and a feed with exactly one entry per Atom entry, in
  document order.
\<close>

theorem Read_entries_in_order:
  assumes "xmlDecode L r = Inr f" and "renderGuarded L"
  shows "(rss_Title (feed_Rss f) \<noteq> []
          \<and> list_all (\<lambda>s. \<not> badTime L s) (rssTimestamps (feed_Rss f)) \<longrightarrow>
            (\<exists>F. Read L r = Returned (F, None)
               \<and> length (Feed_Entries F) = length (rss_Items (feed_Rss f))
               \<and> list_all2 (rssEntry_populated L) (rss_Items (feed_Rss f)) (Feed_Entries F)))
       \<and> (rss_Title (feed_Rss f) = [] \<longrightarrow>
            (\<exists>F. Read L r = Returned (F, None)
               \<and> length (Feed_Entries F) = length (feed_Entries f)
               \<and> list_all2 (atomEntry_populated L) (feed_Entries f) (Feed_Entries F)))"
proof (intro conjI impI)
  assume A: "rss_Title (feed_Rss f) \<noteq> []
          \<and> list_all (\<lambda>s. \<not> badTime L s) (rssTimestamps (feed_Rss f))"
  with assms(1) have R: "Read L r = rssFeed L (feed_Rss f)" by (simp add: Read_def)
  from rssFeed_returns [OF assms(2)] obtain F err where
    F: "rssFeed L (feed_Rss f) = Returned (F, err)" by blast
  from rssFeed_Returned(2) [OF F] A have "err = None"
    by (simp add: firstBadTime_None)
  moreover from rssFeed_Returned(1) [OF F]
  have "list_all2 (rssEntry_populated L) (rss_Items (feed_Rss f)) (Feed_Entries F)"
    by (simp add: rssFeed_populated_def)
  ultimately show "\<exists>F. Read L r = Returned (F, None)
               \<and> length (Feed_Entries F) = length (rss_Items (feed_Rss f))
               \<and> list_all2 (rssEntry_populated L) (rss_Items (feed_Rss f)) (Feed_Entries F)"
    using R F by (auto dest: list_all2_lengthD)
next
  assume A: "rss_Title (feed_Rss f) = []"
  with assms(1) have R: "Read L r = atomFeed L f" by (simp add: Read_def)
  from atomFeed_returns [OF assms(2)] obtain F where
    F: "atomFeed L f = Returned (F, None)" by blast
  from atomFeed_populated [OF F] R F
  show "\<exists>F. Read L r = Returned (F, None)
               \<and> length (Feed_Entries F) = length (feed_Entries f)
               \<and> list_all2 (atomEntry_populated L) (feed_Entries f) (Feed_Entries F)"
    by (auto dest: list_all2_lengthD)
qed

theorem Read_entries_in_order_witness:
  "xmlDecode sampleLibs datedRss_xml = Inr (rssDocument datedRss)
   \<and> renderGuarded sampleLibs
   \<and> rss_Title (feed_Rss (rssDocument datedRss)) = ''Dated''
   \<and> list_all (\<lambda>s. \<not> badTime sampleLibs s) (rssTimestamps (feed_Rss (rssDocument datedRss)))
   \<and> Read sampleLibs datedRss_xml = Returned (datedFeed, None)
   \<and> length (Feed_Entries datedFeed) = length (rss_Items (feed_Rss (rssDocument datedRss)))
   \<and> list_all2 (rssEntry_populated sampleLibs)
        (rss_Items (feed_Rss (rssDocument datedRss))) (Feed_Entries datedFeed)
   \<and> xmlDecode sampleLibs blog_xml = Inr blog
   \<and> rss_Title (feed_Rss blog) = []
   \<and> Read sampleLibs blog_xml = Returned (blogFeed, None)
   \<and> length (Feed_Entries blogFeed) = length (feed_Entries blog)
   \<and> list_all2 (atomEntry_populated sampleLibs) (feed_Entries blog) (Feed_Entries blogFeed)"
proof -
  have t: "rss_Title (feed_Rss (rssDocument datedRss)) = ''Dated''" "rss_Title (feed_Rss blog) = []"
    by code_simp+
  have g: "list_all (\<lambda>s. \<not> badTime sampleLibs s) (rssTimestamps (feed_Rss (rssDocument datedRss)))"
    by code_simp
  from Read_entries_in_order [OF decode_samples(6) sampleLibs_guarded] t(1) g Read_dated
  have a: "length (Feed_Entries datedFeed) = length (rss_Items (feed_Rss (rssDocument datedRss)))
   \<and> list_all2 (rssEntry_populated sampleLibs)
        (rss_Items (feed_Rss (rssDocument datedRss))) (Feed_Entries datedFeed)"
    by auto
  from Read_entries_in_order [OF decode_samples(5) sampleLibs_guarded] t(2) Read_blog
  have b: "length (Feed_Entries blogFeed) = length (feed_Entries blog)
   \<and> list_all2 (atomEntry_populated sampleLibs) (feed_Entries blog) (Feed_Entries blogFeed)"
    by auto
  from a b t g decode_samples(5,6) sampleLibs_guarded Read_dated Read_blog
  show ?thesis by simp
qed

text \<open>
  C6: the link of the feed is the href of the first link whose relation is unset or
  \<open>alternate\<close> (\<open>feed_link_canonical\<close>). The link of an entry is not: \<open>atomFeed\<close> takes the
  href of the one \<^verbatim>\<open>atomLink\<close> of the entry and never looks at its relation. In the
  document \<open>blog_xml\<close> the second entry has a single link, of relation \<open>self\<close>, and the
  first entry has a link with no relation followed by one of relation \<open>self\<close>; both
  entries get the href of the \<open>self\<close> link.
\<close>

theorem atom_entry_link_ignores_rel:
  "xmlDecode sampleLibs blog_xml = Inr blog
   \<and> atomEntry_Link (feed_Entries blog ! 1)
       = \<lparr>atomLink_Rel = ''self'', atomLink_Href = ''http://b/q.atom''\<rparr>
   \<and> canonicalLink [atomEntry_Link (feed_Entries blog ! 1)] = []
   \<and> Read sampleLibs blog_xml = Returned (blogFeed, None)
   \<and> Entry_Link (Feed_Entries blogFeed ! 1) = ''http://b/q.atom''
   \<and> Entry_Link (Feed_Entries blogFeed ! 0) = ''http://b/p.atom''
   \<and> canonicalLink (feed_Links blog) = ''http://b/''
   \<and> Feed_Link blogFeed = ''http://b/''"
  by code_simp

end
